theory Spec2Isabelle
  imports Complex_Main "HOL-Library.Multiset"
begin

section \<open>Intelligent Traffic Routing Advisor: a shallow embedding of \<open>src/main.py\<close>\<close>

text \<open>
  The advisor compares two routes A and B.  \<open>compute_delta_inputs\<close> turns the two route
  dictionaries into four crisp inputs, \<open>advise\<close> clips them, writes them into the
  module-level simulation object \<open>routing\<close>, calls \<open>routing.compute()\<close> and interprets
  the crisp score.

  Conventions of the embedding.
  \<^item> Python floats and ints are idealised as \<open>real\<close> and \<open>int\<close>: rounding error, infinities
    and NaN are outside the model.
  \<^item> A raised exception is a value \<open>Inl fault\<close> of a sum type; a normal return is \<open>Inr\<close>.
  \<^item> A route dictionary is a map from keys to numbers, so a missing key is a \<open>KeyError\<close>.
  \<^item> The object \<open>routing\<close> is shared by all calls; it is passed in and returned.
\<close>

subsection \<open>Values, faults and results\<close>

datatype fault = KeyError string | AssertionError | ValueError | FloatingPointError

text \<open>The values a caller may pass as \<open>peak_flag\<close>, with Python's truth value testing.\<close>

datatype pyval = PyNone | PyBool bool | PyInt int | PyFloat real | PyStr string

fun truthy :: "pyval \<Rightarrow> bool" where
  "truthy PyNone = False"
| "truthy (PyBool b) = b"
| "truthy (PyInt i) = (i \<noteq> 0)"
| "truthy (PyFloat x) = (x \<noteq> 0)"
| "truthy (PyStr s) = (s \<noteq> [])"

text \<open>
  The five strings \<open>advise\<close> stores under "recommendation":
  "Take Route A", "Take Route B", "Both routes comparable",
  "Ambiguous (No matching rules)" and "Error/Neutral".
\<close>

datatype recommendation =
  TakeRouteA | TakeRouteB | BothComparable | AmbiguousNoRules | ErrorNeutral

text \<open>The dictionary \<open>advise\<close> returns: keys "score", "recommendation" and "raw".\<close>

record advice =
  score :: real
  recommendation :: recommendation
  raw :: "real \<times> real \<times> real \<times> int"

text \<open>Sequencing of steps that may raise: the first fault ends the computation.\<close>

definition bind_fault :: "fault + 'a \<Rightarrow> ('a \<Rightarrow> fault + 'b) \<Rightarrow> fault + 'b" where
  "bind_fault m f = (case m of Inl e \<Rightarrow> Inl e | Inr v \<Rightarrow> f v)"

type_synonym route = "string \<rightharpoonup> real"

text \<open>\<open>d[k]\<close> on a dictionary.\<close>

definition getitem :: "route \<Rightarrow> string \<Rightarrow> fault + real" where
  "getitem d k = (case d k of None \<Rightarrow> Inl (KeyError k) | Some v \<Rightarrow> Inr v)"

text \<open>
  The simulation object \<open>routing\<close> (line 130), as far as \<open>advise\<close> reads and writes it:
  the dictionary of inputs and the dictionary of outputs.
\<close>

record simulation =
  sim_input :: "string \<rightharpoonup> real"
  sim_output :: "string \<rightharpoonup> real"

subsection \<open>Membership functions\<close>

text \<open>
  Modelled from the spec: \<open>fuzz.trimf\<close> and \<open>fuzz.trapmf\<close> belong to the scikit-fuzzy
  library, which is not under \<open>src/\<close>.  Section 4.1 of the spec gives the shapes:
  Triangular(a,b,c) is 0 for \<open>x \<le> a\<close> or \<open>x \<ge> c\<close>, the ramp \<open>(x-a)/(b-a)\<close> for
  \<open>a < x < b\<close>, the ramp \<open>(c-x)/(c-b)\<close> for \<open>b < x < c\<close> and 1 at \<open>x = b\<close>;
  Trapezoidal(a,b,c,d) is 0 outside \<open>[a,d]\<close>, ramps up on \<open>[a,b]\<close>, is 1 on \<open>[b,c]\<close>
  and ramps down on \<open>[c,d]\<close>; parameters are ordered.  The functions below give the
  value at one point \<open>x\<close> of the universe.  A ramp is only computed when its edge is not
  vertical (\<open>a \<noteq> b\<close>, \<open>b \<noteq> c\<close>), the library's way of keeping the degenerate shapes
  of lines 77-78 free of a zero divisor; \<open>fdiv\<close> makes a zero divisor visible as a fault.
\<close>

definition fdiv :: "real \<Rightarrow> real \<Rightarrow> fault + real" where
  "fdiv x y = (if y = 0 then Inl FloatingPointError else Inr (x / y))"

definition trimf :: "real \<Rightarrow> real \<times> real \<times> real \<Rightarrow> fault + real" where
  "trimf x abc = (case abc of (a, b, c) \<Rightarrow>
     if \<not> (a \<le> b \<and> b \<le> c) then Inl AssertionError
     else if x = b then Inr 1
     else if a \<noteq> b \<and> a < x \<and> x < b then fdiv (x - a) (b - a)
     else if b \<noteq> c \<and> b < x \<and> x < c then fdiv (c - x) (c - b)
     else Inr 0)"

definition trapmf :: "real \<Rightarrow> real \<times> real \<times> real \<times> real \<Rightarrow> fault + real" where
  "trapmf x abcd = (case abcd of (a, b, c, d) \<Rightarrow>
     if \<not> (a \<le> b \<and> b \<le> c \<and> c \<le> d) then Inl AssertionError
     else bind_fault (if x \<le> b then trimf x (a, b, b) else Inr 1) (\<lambda>y1.
          bind_fault (if c \<le> x then trimf x (c, c, d) else Inr y1) (\<lambda>y2.
          Inr (if d < x then 0 else if x < a then 0 else y2))))"

datatype shape = Trimf real real real | Trapmf real real real real

fun membership :: "shape \<Rightarrow> real \<Rightarrow> fault + real" where
  "membership (Trimf a b c) x = trimf x (a, b, c)"
| "membership (Trapmf a b c d) x = trapmf x (a, b, c, d)"

text \<open>
  A term of a variable holds the array of its shape over the integer universe
  (\<open>np.arange(lo, hi + 1, 1)\<close>), built once when the module is loaded.  \<open>sample\<close> is the
  entry of that array at the grid point \<open>k\<close>.  A fault while the array is built would
  stop the module from loading; no shape of the module has one (lemma
  \<open>module_shapes_load\<close>), so the value given to a fault is never used.
\<close>

definition sample :: "shape \<Rightarrow> int \<Rightarrow> real" where
  "sample s k = (case membership s (of_int k) of Inl e \<Rightarrow> 0 | Inr y \<Rightarrow> y)"

subsection \<open>The linguistic variables of lines 51-85\<close>

datatype delta_label = A_much_better | A_better | Neutral | B_better | B_much_better

datatype peak_label = Offpeak | Peak

datatype score_label = Strong_B | Weak_B | Score_neutral | Weak_A | Strong_A

fun delta_density :: "delta_label \<Rightarrow> shape" where
  "delta_density A_much_better = Trapmf 50 80 200 200"
| "delta_density A_better = Trimf 20 45 70"
| "delta_density Neutral = Trimf (-20) 0 20"
| "delta_density B_better = Trimf (-70) (-45) (-20)"
| "delta_density B_much_better = Trapmf (-200) (-200) (-80) (-50)"

fun delta_speed :: "delta_label \<Rightarrow> shape" where
  "delta_speed A_much_better = Trapmf 20 40 120 120"
| "delta_speed A_better = Trimf 8 18 30"
| "delta_speed Neutral = Trimf (-5) 0 5"
| "delta_speed B_better = Trimf (-30) (-18) (-8)"
| "delta_speed B_much_better = Trapmf (-120) (-120) (-40) (-20)"

fun delta_incident :: "delta_label \<Rightarrow> shape" where
  "delta_incident A_much_better = Trapmf 3 5 10 10"
| "delta_incident A_better = Trimf 1 (5 / 2) 4"
| "delta_incident Neutral = Trimf (-1) 0 1"
| "delta_incident B_better = Trimf (-4) (- (5 / 2)) (-1)"
| "delta_incident B_much_better = Trapmf (-10) (-10) (-5) (-3)"

fun delta_time_peak :: "peak_label \<Rightarrow> shape" where
  "delta_time_peak Offpeak = Trimf 0 0 0"
| "delta_time_peak Peak = Trimf 1 1 1"

fun delta_score :: "score_label \<Rightarrow> shape" where
  "delta_score Strong_B = Trapmf 0 0 10 30"
| "delta_score Weak_B = Trimf 20 35 50"
| "delta_score Score_neutral = Trimf 45 50 55"
| "delta_score Weak_A = Trimf 50 65 80"
| "delta_score Strong_A = Trapmf 70 85 100 100"

text \<open>The terms of \<open>delta_score\<close> in the order lines 81-85 add them.\<close>

definition score_labels :: "score_label list" where
  "score_labels = [Strong_B, Weak_B, Score_neutral, Weak_A, Strong_A]"

subsection \<open>The rule base of lines 90-126\<close>

text \<open>
  An antecedent is a term of an input variable or the conjunction \<open>&\<close> of two antecedents;
  every consequent is a term of \<open>delta_score\<close>.
\<close>

datatype antecedent =
  Density delta_label
| Speed delta_label
| Incident delta_label
| Time_peak peak_label
| And antecedent antecedent

datatype rule = Rule antecedent score_label

definition rules :: "rule list" where
  "rules =
   [Rule (Speed A_much_better) Strong_A,
    Rule (Speed B_much_better) Strong_B,
    Rule (Speed A_better) Weak_A,
    Rule (Speed B_better) Weak_B,
    Rule (Density A_much_better) Strong_A,
    Rule (Density B_much_better) Strong_B,
    Rule (Density A_better) Weak_A,
    Rule (Density B_better) Weak_B,
    Rule (Incident A_much_better) Strong_A,
    Rule (Incident B_much_better) Strong_B,
    Rule (Incident A_better) Weak_A,
    Rule (Incident B_better) Weak_B,
    Rule (And (Time_peak Peak) (Density A_better)) Strong_A,
    Rule (And (Time_peak Peak) (Density B_better)) Strong_B,
    Rule (And (And (Density Neutral) (Speed Neutral)) (Incident Neutral)) Score_neutral]"

subsection \<open>The inference engine behind \<open>routing.compute()\<close>\<close>

text \<open>
  Modelled from the spec: \<open>ctrl.ControlSystemSimulation.compute\<close> belongs to the
  scikit-fuzzy library, which is not under \<open>src/\<close>.  Section 4.3 of the spec gives its three
  phases.  Fuzzification: the degree of every label of every input variable at the crisp
  input.  Rule evaluation and aggregation: the firing strength of a rule is the minimum
  over its conjunction, the consequent set is clipped to it, and rules with the same
  consequent label are combined by maximum.  Defuzzification: the centroid
  \<open>\<Sum>(x * degree(x)) / \<Sum>(degree(x))\<close> sampled at the resolution of the output universe
  \<open>0..100\<close>; an aggregate that is zero everywhere is a distinguishable no-match
  condition, not a division by zero and not a fault: \<open>defuzz\<close> returns \<open>None\<close> there, and
  \<open>compute\<close> then returns without storing a crisp value, which is what the test
  \<open>"delta_score" not in routing.output\<close> of line 173 expects of it.  \<open>compute\<close> writes
  nothing else to \<open>routing.output\<close>, so a value stored by an earlier run stays there.
\<close>

text \<open>
  The degree of a crisp input \<open>xx\<close> in a term: the term's array over the universe
  \<open>lo..hi\<close>, read at \<open>xx\<close> with linear interpolation between grid points and 0 outside
  the universe.
\<close>

definition interp_membership :: "int \<Rightarrow> int \<Rightarrow> shape \<Rightarrow> real \<Rightarrow> real" where
  "interp_membership lo hi s xx =
     (if xx < of_int lo \<or> of_int hi < xx then 0
      else if of_int \<lfloor>xx\<rfloor> = xx then sample s \<lfloor>xx\<rfloor>
      else sample s \<lfloor>xx\<rfloor> + (xx - of_int \<lfloor>xx\<rfloor>) * (sample s (\<lfloor>xx\<rfloor> + 1) - sample s \<lfloor>xx\<rfloor>))"

text \<open>The four crisp inputs of one run, as \<open>compute\<close> reads them from \<open>routing.input\<close>.\<close>

record crisp =
  in_density :: real
  in_speed :: real
  in_incident :: real
  in_time_peak :: real

fun firing :: "crisp \<Rightarrow> antecedent \<Rightarrow> real" where
  "firing inp (Density l) = interp_membership (-200) 200 (delta_density l) (in_density inp)"
| "firing inp (Speed l) = interp_membership (-120) 120 (delta_speed l) (in_speed inp)"
| "firing inp (Incident l) = interp_membership (-10) 10 (delta_incident l) (in_incident inp)"
| "firing inp (Time_peak l) = interp_membership 0 1 (delta_time_peak l) (in_time_peak inp)"
| "firing inp (And p q) = min (firing inp p) (firing inp q)"

text \<open>
  One rule: its firing strength becomes the cut of its consequent term, combined by
  maximum with the cut earlier rules gave that term.
\<close>

fun compute_rule :: "crisp \<Rightarrow> rule \<Rightarrow> (score_label \<rightharpoonup> real) \<Rightarrow> (score_label \<rightharpoonup> real)" where
  "compute_rule inp (Rule ant c) cuts =
     cuts(c \<mapsto> (case cuts c of None \<Rightarrow> firing inp ant | Some old \<Rightarrow> max (firing inp ant) old))"

definition accumulate :: "rule list \<Rightarrow> crisp \<Rightarrow> (score_label \<rightharpoonup> real)" where
  "accumulate rs inp = fold (compute_rule inp) rs Map.empty"

text \<open>The aggregated output set at the grid point \<open>k\<close>: the maximum of the clipped terms.\<close>

definition output_mf :: "(score_label \<rightharpoonup> real) \<Rightarrow> int \<Rightarrow> real" where
  "output_mf cuts k =
     fold (\<lambda>l acc. case cuts l of None \<Rightarrow> acc
                     | Some lvl \<Rightarrow> max acc (min lvl (sample (delta_score l) k)))
          score_labels 0"

definition defuzz :: "(int \<Rightarrow> real) \<Rightarrow> real option" where
  "defuzz mu =
     (let den = (\<Sum>k\<leftarrow>[0..100]. mu k) in
      if den = 0 then None
      else Some ((\<Sum>k\<leftarrow>[0..100]. of_int k * mu k) / den))"

text \<open>
  \<open>compute\<close> for a control system with the rule list \<open>rs\<close>.  Every antecedent must have
  an input, or \<open>compute\<close> raises.  A crisp value is stored under "delta_score"; when no
  rule fires there is none, and the simulation object is returned as it is.
\<close>

definition compute :: "rule list \<Rightarrow> simulation \<Rightarrow> fault + simulation" where
  "compute rs sim =
     (case (sim_input sim ''delta_density'', sim_input sim ''delta_speed'',
            sim_input sim ''delta_incident'', sim_input sim ''delta_time_peak'') of
        (Some dd, Some ds, Some di, Some dp) \<Rightarrow>
          (case defuzz (output_mf (accumulate rs
                  \<lparr>in_density = dd, in_speed = ds, in_incident = di, in_time_peak = dp\<rparr>)) of
             None \<Rightarrow> Inr sim
           | Some v \<Rightarrow> Inr (sim\<lparr>sim_output := (sim_output sim)(''delta_score'' \<mapsto> v)\<rparr>))
      | _ \<Rightarrow> Inl ValueError)"

subsection \<open>The advisor functions of lines 137-202\<close>

definition compute_delta_inputs ::
  "route \<Rightarrow> route \<Rightarrow> pyval \<Rightarrow> fault + (real \<times> real \<times> real \<times> pyval)" where
  "compute_delta_inputs A B peak_flag =
     bind_fault (getitem A ''density'') (\<lambda>a_density.
     bind_fault (getitem B ''density'') (\<lambda>b_density.
     bind_fault (getitem A ''speed'') (\<lambda>a_speed.
     bind_fault (getitem B ''speed'') (\<lambda>b_speed.
     bind_fault (getitem B ''incident'') (\<lambda>b_incident.
     bind_fault (getitem A ''incident'') (\<lambda>a_incident.
       Inr (a_density - b_density, a_speed - b_speed, b_incident - a_incident,
            peak_flag)))))))"

text \<open>\<open>np.clip(x, lo, hi)\<close>: the minimum with \<open>hi\<close> of the maximum with \<open>lo\<close>.\<close>

definition clip :: "real \<Rightarrow> real \<Rightarrow> real \<Rightarrow> real" where
  "clip x lo hi = min (max x lo) hi"

text \<open>\<open>round(x, n)\<close> of Python 3: to the nearest multiple of \<open>10^-n\<close>, a tie to the even one.\<close>

definition round_half_even :: "real \<Rightarrow> int" where
  "round_half_even y =
     (if y - of_int \<lfloor>y\<rfloor> < 1 / 2 then \<lfloor>y\<rfloor>
      else if 1 / 2 < y - of_int \<lfloor>y\<rfloor> then \<lfloor>y\<rfloor> + 1
      else if even \<lfloor>y\<rfloor> then \<lfloor>y\<rfloor> else \<lfloor>y\<rfloor> + 1)"

definition py_round :: "real \<Rightarrow> nat \<Rightarrow> real" where
  "py_round x n = of_int (round_half_even (x * 10 ^ n)) / 10 ^ n"

text \<open>Lines 184-190: the interpretation of the crisp score.\<close>

definition interpret_score :: "real \<Rightarrow> recommendation" where
  "interpret_score s = (if 60 < s then TakeRouteA else if s < 40 then TakeRouteB else BothComparable)"

text \<open>Lines 156-159: the four assignments to \<open>routing.input\<close>.\<close>

definition set_inputs :: "simulation \<Rightarrow> real \<Rightarrow> real \<Rightarrow> real \<Rightarrow> int \<Rightarrow> simulation" where
  "set_inputs routing d_density d_speed d_inc peak_val =
     routing\<lparr>sim_input := (sim_input routing)
        (''delta_density'' \<mapsto> d_density, ''delta_speed'' \<mapsto> d_speed,
         ''delta_incident'' \<mapsto> d_inc, ''delta_time_peak'' \<mapsto> of_int peak_val)\<rparr>"

text \<open>
  \<open>advise\<close>, for a simulation object whose \<open>compute\<close> method is \<open>engine\<close>.  The first
  component is what the call returns or raises, the second is the simulation object
  after the call.  The four assignments to \<open>routing.input\<close> happen before the \<open>try\<close>;
  when \<open>compute\<close> raises, the object keeps them and its old outputs.
\<close>

definition advise_on ::
  "(simulation \<Rightarrow> fault + simulation) \<Rightarrow> simulation \<Rightarrow> route \<Rightarrow> route \<Rightarrow> pyval
     \<Rightarrow> (fault + advice) \<times> simulation" where
  "advise_on engine routing routeA routeB peak_flag =
     (case compute_delta_inputs routeA routeB peak_flag of
        Inl e \<Rightarrow> (Inl e, routing)
      | Inr (d_density0, d_speed0, d_inc0, peak) \<Rightarrow>
         (let d_density = clip d_density0 (-200) 200;
              d_speed = clip d_speed0 (-120) 120;
              d_inc = clip d_inc0 (-10) 10;
              peak_val = (if truthy peak then 1 else 0);
              routing1 = set_inputs routing d_density d_speed d_inc peak_val
          in case engine routing1 of
               Inl e \<Rightarrow>
                 (Inr \<lparr>score = 50, recommendation = ErrorNeutral,
                       raw = (d_density, d_speed, d_inc, peak_val)\<rparr>, routing1)
             | Inr routing2 \<Rightarrow>
                 (case sim_output routing2 ''delta_score'' of
                    None \<Rightarrow>
                      (Inr \<lparr>score = 50, recommendation = AmbiguousNoRules,
                            raw = (d_density, d_speed, d_inc, peak_val)\<rparr>, routing2)
                  | Some s \<Rightarrow>
                      (Inr \<lparr>score = py_round s 2, recommendation = interpret_score s,
                            raw = (d_density, d_speed, d_inc, peak_val)\<rparr>, routing2))))"

text \<open>\<open>advise\<close> of the module: \<open>routing\<close> simulates the control system of \<open>rules\<close>.\<close>

definition advise :: "simulation \<Rightarrow> route \<Rightarrow> route \<Rightarrow> pyval \<Rightarrow> (fault + advice) \<times> simulation" where
  "advise = advise_on (compute rules)"

subsection \<open>Concrete inputs\<close>

text \<open>A route dictionary \<open>{"density": d, "speed": s, "incident": i}\<close>.\<close>

definition route_of :: "real \<Rightarrow> real \<Rightarrow> real \<Rightarrow> route" where
  "route_of d s i = [''density'' \<mapsto> d, ''speed'' \<mapsto> s, ''incident'' \<mapsto> i]"

text \<open>The dictionary \<open>r\<close> holds the three measurements of a route.\<close>

definition has_measurements :: "route \<Rightarrow> real \<Rightarrow> real \<Rightarrow> real \<Rightarrow> bool" where
  "has_measurements r d s i =
     (r ''density'' = Some d \<and> r ''speed'' = Some s \<and> r ''incident'' = Some i)"

text \<open>The simulation object as line 130 creates it: no inputs, no outputs.\<close>

definition routing0 :: simulation where
  "routing0 = \<lparr>sim_input = Map.empty, sim_output = Map.empty\<rparr>"

subsection \<open>The state of the module\<close>

text \<open>
  The states of \<open>routing\<close> that calls of \<open>advise\<close> can produce, from the object of line
  130 on; the arguments of a call are arbitrary.
\<close>

inductive reachable :: "simulation \<Rightarrow> bool" where
  start: "reachable routing0"
| call: "reachable routing \<Longrightarrow> reachable (snd (advise routing A B p))"

text \<open>
  The two mutable globals \<open>advise\<close> depends on: the list \<open>rules\<close>, from which line 129
  builds the control system, and the simulation object \<open>routing\<close>.  \<open>advise_module\<close> is
  \<open>advise\<close> with both passed in and returned.  The shapes of the variables are constants
  of the embedding.
\<close>

record module_state =
  mod_rules :: "rule list"
  mod_routing :: simulation

definition advise_module ::
  "module_state \<Rightarrow> route \<Rightarrow> route \<Rightarrow> pyval \<Rightarrow> (fault + advice) \<times> module_state" where
  "advise_module m routeA routeB peak_flag =
     (case advise_on (compute (mod_rules m)) (mod_routing m) routeA routeB peak_flag of
        (res, routing') \<Rightarrow> (res, m\<lparr>mod_routing := routing'\<rparr>))"


section \<open>Properties\<close>

subsection \<open>The advisor, step by step\<close>

lemma has_measurements_route_of: "has_measurements (route_of d s i) d s i"
  by (simp add: has_measurements_def route_of_def)

lemma compute_delta_inputs_eq:
  assumes "has_measurements A ad asp ai" and "has_measurements B bd bsp bi"
  shows "compute_delta_inputs A B p = Inr (ad - bd, asp - bsp, bi - ai, p)"
  using assms
  by (simp add: has_measurements_def compute_delta_inputs_def getitem_def bind_fault_def)

text \<open>
  With both dictionaries complete, \<open>advise\<close> is a case distinction on what the engine
  does with the simulation object that holds the clipped inputs.
\<close>

lemma advise_on_eq:
  assumes "has_measurements A ad asp ai" and "has_measurements B bd bsp bi"
  shows "advise_on engine routing A B p =
     (case engine (set_inputs routing (clip (ad - bd) (-200) 200) (clip (asp - bsp) (-120) 120)
                     (clip (bi - ai) (-10) 10) (if truthy p then 1 else 0)) of
        Inl e \<Rightarrow>
          (Inr \<lparr>score = 50, recommendation = ErrorNeutral,
                raw = (clip (ad - bd) (-200) 200, clip (asp - bsp) (-120) 120,
                       clip (bi - ai) (-10) 10, if truthy p then 1 else 0)\<rparr>,
           set_inputs routing (clip (ad - bd) (-200) 200) (clip (asp - bsp) (-120) 120)
                     (clip (bi - ai) (-10) 10) (if truthy p then 1 else 0))
      | Inr routing2 \<Rightarrow>
          (case sim_output routing2 ''delta_score'' of
             None \<Rightarrow>
               (Inr \<lparr>score = 50, recommendation = AmbiguousNoRules,
                     raw = (clip (ad - bd) (-200) 200, clip (asp - bsp) (-120) 120,
                            clip (bi - ai) (-10) 10, if truthy p then 1 else 0)\<rparr>, routing2)
           | Some s \<Rightarrow>
               (Inr \<lparr>score = py_round s 2, recommendation = interpret_score s,
                     raw = (clip (ad - bd) (-200) 200, clip (asp - bsp) (-120) 120,
                            clip (bi - ai) (-10) 10, if truthy p then 1 else 0)\<rparr>, routing2)))"
  by (simp add: advise_on_def compute_delta_inputs_eq [OF assms] Let_def)

lemma set_inputs_input:
  "sim_input (set_inputs routing dd ds di pv) ''delta_density'' = Some dd"
  "sim_input (set_inputs routing dd ds di pv) ''delta_speed'' = Some ds"
  "sim_input (set_inputs routing dd ds di pv) ''delta_incident'' = Some di"
  "sim_input (set_inputs routing dd ds di pv) ''delta_time_peak'' = Some (of_int pv)"
  "sim_output (set_inputs routing dd ds di pv) = sim_output routing"
  by (simp_all add: set_inputs_def)

lemma clip_bounds: "lo \<le> hi \<Longrightarrow> lo \<le> clip x lo hi \<and> clip x lo hi \<le> hi"
  by (simp add: clip_def)

subsection \<open>The engine on concrete inputs\<close>

lemma universe_0_100: "[0..100::int] = 0 # 1 # 2 # 3 # 4 # 5 # 6 # 7 # 8 # 9 # 10 # 11 # 12 # 13 # 14 # 15 # 16 # 17 # 18 # 19 # 20 # 21 # 22 # 23 # 24 # 25 # 26 # 27 # 28 # 29 # 30 # 31 # 32 # 33 # 34 # 35 # 36 # 37 # 38 # 39 # 40 # 41 # 42 # 43 # 44 # 45 # 46 # 47 # 48 # 49 # 50 # 51 # 52 # 53 # 54 # 55 # 56 # 57 # 58 # 59 # 60 # 61 # 62 # 63 # 64 # 65 # 66 # 67 # 68 # 69 # 70 # 71 # 72 # 73 # 74 # 75 # 76 # 77 # 78 # 79 # 80 # 81 # 82 # 83 # 84 # 85 # 86 # 87 # 88 # 89 # 90 # 91 # 92 # 93 # 94 # 95 # 96 # 97 # 98 # 99 # 100 # []"
  by (simp add: upto.simps)

lemma compute_set_inputs:
  "compute rs (set_inputs routing dd ds di pv) =
     (case defuzz (output_mf (accumulate rs
             \<lparr>in_density = dd, in_speed = ds, in_incident = di, in_time_peak = of_int pv\<rparr>)) of
        None \<Rightarrow> Inr (set_inputs routing dd ds di pv)
      | Some v \<Rightarrow> Inr ((set_inputs routing dd ds di pv)
                       \<lparr>sim_output := (sim_output routing)(''delta_score'' \<mapsto> v)\<rparr>))"
  by (simp add: compute_def set_inputs_def split: option.splits)

lemmas engine_defs =
  output_mf_def score_labels_def sample_def trimf_def trapmf_def bind_fault_def fdiv_def

text \<open>
  Density delta 20, speed delta 6, incident delta 1: each lies on the edge or in the gap
  between the fuzzy sets of its variable, so every rule fires with strength 0.
\<close>

lemma cuts_no_rule:
  "accumulate rules \<lparr>in_density = 20, in_speed = 6, in_incident = 1, in_time_peak = 0\<rparr> =
     [Strong_A \<mapsto> 0, Strong_B \<mapsto> 0, Weak_A \<mapsto> 0, Weak_B \<mapsto> 0, Score_neutral \<mapsto> 0]"
  by (rule ext) (simp add: accumulate_def rules_def interp_membership_def engine_defs)

lemma defuzz_no_rule:
  "defuzz (output_mf [Strong_A \<mapsto> 0, Strong_B \<mapsto> 0, Weak_A \<mapsto> 0, Weak_B \<mapsto> 0,
      Score_neutral \<mapsto> 0]) = None"
  unfolding defuzz_def universe_0_100 by (simp add: engine_defs)

lemma compute_no_rule:
  "compute rules (set_inputs routing 20 6 1 0) = Inr (set_inputs routing 20 6 1 0)"
  by (simp add: compute_set_inputs cuts_no_rule defuzz_no_rule)

subsection \<open>The decision mapper\<close>

text \<open>
  C3.  The interpretation of the crisp score (lines 184-190) is a total function of the
  score: it is "Take Route A" exactly for the scores above 60, "Take Route B" exactly
  for the scores below 40, and "Both routes comparable" exactly for the scores from 40
  to 60, both bounds included.
\<close>

theorem decision_mapper:
  "(interpret_score s = TakeRouteA) = (60 < s) \<and>
   (interpret_score s = TakeRouteB) = (s < 40) \<and>
   (interpret_score s = BothComparable) = (40 \<le> s \<and> s \<le> 60)"
  by (auto simp: interpret_score_def)

theorem decision_mapper_witness:
  "interpret_score 61 = TakeRouteA \<and> interpret_score 39 = TakeRouteB \<and>
   interpret_score 40 = BothComparable \<and> interpret_score 60 = BothComparable \<and>
   interpret_score 50 = BothComparable"
  using decision_mapper [of 61] decision_mapper [of 39] decision_mapper [of 40]
    decision_mapper [of 60] decision_mapper [of 50]
  by simp

subsection \<open>Faults of the engine\<close>

text \<open>
  C5.  For route dictionaries that hold their three measurements, any peak flag, any state
  of the simulation object and any behaviour of \<open>compute\<close>, \<open>advise\<close> returns a result
  record and raises nothing; and when \<open>compute\<close> raises on the inputs \<open>advise\<close> gave it,
  the result has score 50 and the recommendation "Error/Neutral".
\<close>

theorem advise_never_raises:
  assumes "has_measurements A ad asp ai" and "has_measurements B bd bsp bi"
  shows "\<exists>r. fst (advise_on engine routing A B p) = Inr r \<and>
           ((\<exists>e. engine (set_inputs routing (clip (ad - bd) (-200) 200)
                     (clip (asp - bsp) (-120) 120) (clip (bi - ai) (-10) 10)
                     (if truthy p then 1 else 0)) = Inl e)
            \<longrightarrow> score r = 50 \<and> recommendation r = ErrorNeutral)"
  unfolding advise_on_eq [OF assms]
  by (auto split: sum.splits option.splits)

theorem advise_never_raises_witness:
  "has_measurements (route_of 40 56 0) 40 56 0 \<and> has_measurements (route_of 20 50 1) 20 50 1 \<and>
   (\<exists>e. (\<lambda>sim. Inl ValueError :: fault + simulation) (set_inputs routing0 20 6 1 0) = Inl e) \<and>
   (\<exists>r. fst (advise_on (\<lambda>sim. Inl ValueError) routing0 (route_of 40 56 0) (route_of 20 50 1)
             (PyInt 0)) = Inr r \<and> score r = 50 \<and> recommendation r = ErrorNeutral) \<and>
   (\<exists>r. fst (advise_on (compute rules) routing0 (route_of 40 56 0) (route_of 20 50 1)
             (PyInt 0)) = Inr r)"
  using advise_never_raises [OF has_measurements_route_of [of 40 56 0]
      has_measurements_route_of [of 20 50 1],
      where engine = "\<lambda>sim. Inl ValueError" and routing = routing0 and p = "PyInt 0"]
    advise_never_raises [OF has_measurements_route_of [of 40 56 0]
      has_measurements_route_of [of 20 50 1],
      where engine = "compute rules" and routing = routing0 and p = "PyInt 0"]
  by (auto simp: has_measurements_route_of)

subsection \<open>The advisor of the module\<close>

text \<open>
  What \<open>advise\<close> returns, with the engine of the module unfolded.  When a rule fires the
  result is made of the new crisp value; when none fires, \<open>advise\<close> reads what
  \<open>routing.output\<close> held before the call.
\<close>

lemma advise_fst:
  "fst (advise routing A B p) =
     (case compute_delta_inputs A B p of
        Inl e \<Rightarrow> Inl e
      | Inr (d0, s0, i0, pk) \<Rightarrow>
          Inr (case defuzz (output_mf (accumulate rules
                   \<lparr>in_density = clip d0 (-200) 200, in_speed = clip s0 (-120) 120,
                      in_incident = clip i0 (-10) 10,
                      in_time_peak = (if truthy pk then 1 else 0)\<rparr>)) of
                 Some v \<Rightarrow>
                   \<lparr>score = py_round v 2, recommendation = interpret_score v,
                      raw = (clip d0 (-200) 200, clip s0 (-120) 120, clip i0 (-10) 10,
                             if truthy pk then 1 else 0)\<rparr>
               | None \<Rightarrow>
                   (case sim_output routing ''delta_score'' of
                      None \<Rightarrow>
                        \<lparr>score = 50, recommendation = AmbiguousNoRules,
                           raw = (clip d0 (-200) 200, clip s0 (-120) 120, clip i0 (-10) 10,
                                  if truthy pk then 1 else 0)\<rparr>
                    | Some old \<Rightarrow>
                        \<lparr>score = py_round old 2, recommendation = interpret_score old,
                           raw = (clip d0 (-200) 200, clip s0 (-120) 120, clip i0 (-10) 10,
                                  if truthy pk then 1 else 0)\<rparr>)))"
  by (simp add: advise_def advise_on_def compute_set_inputs Let_def set_inputs_input
      split: sum.splits prod.splits option.splits)




lemma advise_snd_output:
  "sim_output (snd (advise routing A B p)) =
     (case compute_delta_inputs A B p of
        Inl e \<Rightarrow> sim_output routing
      | Inr (d0, s0, i0, pk) \<Rightarrow>
          (case defuzz (output_mf (accumulate rules
                   \<lparr>in_density = clip d0 (-200) 200, in_speed = clip s0 (-120) 120,
                      in_incident = clip i0 (-10) 10,
                      in_time_peak = (if truthy pk then 1 else 0)\<rparr>)) of
             None \<Rightarrow> sim_output routing
           | Some v \<Rightarrow> (sim_output routing)(''delta_score'' \<mapsto> v)))"
  by (auto simp: advise_def advise_on_def compute_set_inputs Let_def set_inputs_input
      split: sum.splits prod.splits option.splits)

subsection \<open>The range of the crisp value\<close>

lemma fold_clip_nonneg:
  "0 \<le> acc \<Longrightarrow>
   0 \<le> fold (\<lambda>l acc. case cuts l of None \<Rightarrow> acc
                    | Some lvl \<Rightarrow> max acc (min lvl (g l :: real))) ls acc"
  by (induction ls arbitrary: acc) (auto simp: le_max_iff_disj split: option.splits)

lemma output_mf_nonneg: "0 \<le> output_mf cuts k"
  unfolding output_mf_def by (rule fold_clip_nonneg) simp

lemma weighted_sum_bounds:
  fixes f :: "int \<Rightarrow> real"
  assumes "\<And>k. 0 \<le> f k" and "\<And>k. k \<in> set xs \<Longrightarrow> 0 \<le> k \<and> k \<le> 100"
  shows "0 \<le> (\<Sum>k\<leftarrow>xs. of_int k * f k) \<and> (\<Sum>k\<leftarrow>xs. of_int k * f k) \<le> 100 * (\<Sum>k\<leftarrow>xs. f k)"
  using assms(2)
proof (induction xs)
  case Nil
  then show ?case by simp
next
  case (Cons x xs)
  have x: "0 \<le> x" "x \<le> 100" using Cons.prems by auto
  have "0 \<le> of_int x * f x"
    using x(1) assms(1) by simp
  moreover have "of_int x * f x \<le> 100 * f x"
    using x(2) assms(1) by (intro mult_right_mono) auto
  ultimately show ?case
    using Cons.IH Cons.prems by (simp add: algebra_simps)
qed

lemma defuzz_bounds:
  assumes "\<And>k. 0 \<le> mu k" and "defuzz mu = Some v"
  shows "0 \<le> v \<and> v \<le> 100"
proof -
  let ?den = "\<Sum>k\<leftarrow>[0..100]. mu k"
  let ?num = "\<Sum>k\<leftarrow>[0..100]. of_int k * mu k"
  have den: "?den \<noteq> 0" and v: "v = ?num / ?den"
    using assms(2) by (auto simp: defuzz_def Let_def split: if_splits)
  have "0 \<le> ?den"
    by (rule sum_list_nonneg) (use assms(1) in auto)
  with den have pos: "0 < ?den" by simp
  have b: "0 \<le> ?num \<and> ?num \<le> 100 * ?den"
    by (rule weighted_sum_bounds) (use assms(1) in auto)
  show ?thesis
    unfolding v using b pos by (simp add: divide_le_eq)
qed

lemma round_half_even_lower:
  assumes "of_int n \<le> y"
  shows "n \<le> round_half_even y"
proof -
  have "n \<le> \<lfloor>y\<rfloor>" using assms by (simp add: le_floor_iff)
  then show ?thesis by (auto simp: round_half_even_def)
qed

lemma round_half_even_upper:
  assumes "y \<le> of_int n"
  shows "round_half_even y \<le> n"
proof (cases "\<lfloor>y\<rfloor> = n")
  case True
  then have "y = of_int \<lfloor>y\<rfloor>"
    using assms of_int_floor_le [of y] by simp
  then have "y - of_int \<lfloor>y\<rfloor> = 0" by simp
  then show ?thesis
    using True unfolding round_half_even_def by simp
next
  case False
  have "\<lfloor>y\<rfloor> \<le> n" using assms by (simp add: floor_le_iff)
  with False have "\<lfloor>y\<rfloor> + 1 \<le> n" by simp
  then show ?thesis
    by (auto simp: round_half_even_def)
qed

lemma py_round_bounds:
  assumes "0 \<le> s" and "s \<le> 100"
  shows "0 \<le> py_round s 2 \<and> py_round s 2 \<le> 100"
proof -
  have "0 \<le> round_half_even (s * 10 ^ 2)"
    by (rule round_half_even_lower) (use assms in simp)
  moreover have "round_half_even (s * 10 ^ 2) \<le> 10000"
    by (rule round_half_even_upper) (use assms in simp)
  ultimately show ?thesis
    by (simp add: py_round_def divide_le_eq)
qed


subsection \<open>The check "clear winner A" of \<open>run_checks\<close>\<close>

lemma weighted_sum:
  "(\<Sum>k\<leftarrow>xs. of_int k * f k) = (\<Sum>(k, v)\<leftarrow>zip xs (map f xs). of_int k * (v::real))"
  by (induction xs) simp_all

text \<open>
  Route A = (density 20, speed 80, incident 0), route B = (density 120, speed 30,
  incident 2), peak flag 1.  The density delta is 20 - 120 = -100, on which the term
  \<open>B_much_better\<close> of \<open>delta_density\<close> has degree 1, so the rule for \<open>strong_B\<close> fires
  fully, as does the speed rule for \<open>strong_A\<close>.
\<close>

lemma cuts_A:
  "accumulate rules \<lparr>in_density = - 100, in_speed = 50, in_incident = 2, in_time_peak = 1\<rparr> =
     [Strong_A \<mapsto> 1, Strong_B \<mapsto> 1, Weak_A \<mapsto> 2 / 3, Weak_B \<mapsto> 0, Score_neutral \<mapsto> 0]"
  by (rule ext) (simp add: accumulate_def rules_def interp_membership_def engine_defs)

lemma mf_A:
  "map (output_mf [Strong_A \<mapsto> 1, Strong_B \<mapsto> 1, Weak_A \<mapsto> 2 / 3, Weak_B \<mapsto> 0, Score_neutral \<mapsto> 0]) [0..100] =
     [
      1, 1, 1, 1, 1, 1, 1, 1, 1, 1, 1, 19 / 20, 9 / 10, 17 / 20, 4 / 5, 3 / 4, 7 / 10,
      13 / 20, 3 / 5, 11 / 20, 1 / 2, 9 / 20, 2 / 5, 7 / 20, 3 / 10, 1 / 4, 1 / 5, 3 / 20,
      1 / 10, 1 / 20, 0, 0, 0, 0, 0, 0, 0, 0, 0, 0, 0, 0, 0, 0, 0, 0, 0, 0, 0, 0, 0,
      1 / 15, 2 / 15, 1 / 5, 4 / 15, 1 / 3, 2 / 5, 7 / 15, 8 / 15, 3 / 5, 2 / 3, 2 / 3,
      2 / 3, 2 / 3, 2 / 3, 2 / 3, 2 / 3, 2 / 3, 2 / 3, 2 / 3, 2 / 3, 3 / 5, 8 / 15, 7 / 15,
      2 / 5, 1 / 3, 2 / 5, 7 / 15, 8 / 15, 3 / 5, 2 / 3, 11 / 15, 4 / 5, 13 / 15, 14 / 15,
      1, 1, 1, 1, 1, 1, 1, 1, 1, 1, 1, 1, 1, 1, 1, 1]"
  unfolding universe_0_100 by (simp add: engine_defs)

lemma defuzz_A:
  "defuzz (output_mf [Strong_A \<mapsto> 1, Strong_B \<mapsto> 1, Weak_A \<mapsto> 2 / 3, Weak_B \<mapsto> 0, Score_neutral \<mapsto> 0]) = Some (17975 / 331)"
  apply (simp only: defuzz_def weighted_sum mf_A)
  apply (simp add: universe_0_100)
  done

text \<open>The same two routes exchanged.\<close>

lemma cuts_B:
  "accumulate rules \<lparr>in_density = 100, in_speed = - 50, in_incident = - 2, in_time_peak = 1\<rparr> =
     [Strong_A \<mapsto> 1, Strong_B \<mapsto> 1, Weak_A \<mapsto> 0, Weak_B \<mapsto> 2 / 3, Score_neutral \<mapsto> 0]"
  by (rule ext) (simp add: accumulate_def rules_def interp_membership_def engine_defs)

lemma mf_B:
  "map (output_mf [Strong_A \<mapsto> 1, Strong_B \<mapsto> 1, Weak_A \<mapsto> 0, Weak_B \<mapsto> 2 / 3, Score_neutral \<mapsto> 0]) [0..100] =
     [
      1, 1, 1, 1, 1, 1, 1, 1, 1, 1, 1, 19 / 20, 9 / 10, 17 / 20, 4 / 5, 3 / 4, 7 / 10,
      13 / 20, 3 / 5, 11 / 20, 1 / 2, 9 / 20, 2 / 5, 7 / 20, 3 / 10, 1 / 3, 2 / 5, 7 / 15,
      8 / 15, 3 / 5, 2 / 3, 2 / 3, 2 / 3, 2 / 3, 2 / 3, 2 / 3, 2 / 3, 2 / 3, 2 / 3, 2 / 3,
      2 / 3, 3 / 5, 8 / 15, 7 / 15, 2 / 5, 1 / 3, 4 / 15, 1 / 5, 2 / 15, 1 / 15, 0, 0, 0,
      0, 0, 0, 0, 0, 0, 0, 0, 0, 0, 0, 0, 0, 0, 0, 0, 0, 0, 1 / 15, 2 / 15, 1 / 5, 4 / 15,
      1 / 3, 2 / 5, 7 / 15, 8 / 15, 3 / 5, 2 / 3, 11 / 15, 4 / 5, 13 / 15, 14 / 15, 1, 1,
      1, 1, 1, 1, 1, 1, 1, 1, 1, 1, 1, 1, 1, 1]"
  unfolding universe_0_100 by (simp add: engine_defs)

lemma defuzz_B:
  "defuzz (output_mf [Strong_A \<mapsto> 1, Strong_B \<mapsto> 1, Weak_A \<mapsto> 0, Weak_B \<mapsto> 2 / 3, Score_neutral \<mapsto> 0]) = Some (32229 / 665)"
  apply (simp only: defuzz_def weighted_sum mf_B)
  apply (simp add: universe_0_100)
  done

lemma py_round_A: "py_round (17975 / 331) 2 = 5431 / 100"
  by (simp add: py_round_def round_half_even_def)

lemma py_round_B: "py_round (32229 / 665) 2 = 2423 / 50"
  by (simp add: py_round_def round_half_even_def)

text \<open>
  C1.  The claim is that \<open>advise\<close> recommends route A for A = (20, 80, 0), B = (120, 30, 2),
  peak flag 1, and route B for the two routes exchanged; \<open>run_checks\<close> expects the first.
  \<open>advise\<close> returns "Both routes comparable" for both calls, with scores 54.31 and
  48.46: line 140 computes the density delta as density(A) - density(B), although its
  comment and the fuzzy sets take a positive delta to favour A.
\<close>

theorem clear_winner_inputs_comparable:
  "fst (advise routing (route_of 20 80 0) (route_of 120 30 2) (PyInt 1)) =
     Inr \<lparr>score = 5431 / 100, recommendation = BothComparable, raw = (- 100, 50, 2, 1)\<rparr> \<and>
   fst (advise routing (route_of 120 30 2) (route_of 20 80 0) (PyInt 1)) =
     Inr \<lparr>score = 2423 / 50, recommendation = BothComparable, raw = (100, - 50, - 2, 1)\<rparr>"
  by (simp add: advise_fst
      compute_delta_inputs_eq [OF has_measurements_route_of has_measurements_route_of]
      clip_def cuts_A defuzz_A cuts_B defuzz_B py_round_A py_round_B interpret_score_def)

subsection \<open>Inputs on which no rule fires\<close>

text \<open>
  For route A = (density 40, speed 56, incident 0), route B = (density 20, speed 50,
  incident 1) and peak flag 0 the deltas are 20, 6 and 1, every rule fires with strength 0
  (lemma \<open>cuts_no_rule\<close>) and the aggregate is zero everywhere.  On a simulation object
  that holds no output, \<open>advise\<close> answers "Ambiguous (No matching rules)" with score 50.
\<close>

lemma advise_no_rule_fresh:
  assumes "sim_output routing ''delta_score'' = None"
  shows "fst (advise routing (route_of 40 56 0) (route_of 20 50 1) (PyInt 0)) =
     Inr \<lparr>score = 50, recommendation = AmbiguousNoRules, raw = (20, 6, 1, 0)\<rparr>"
  using assms
  by (simp add: advise_fst
      compute_delta_inputs_eq [OF has_measurements_route_of has_measurements_route_of]
      clip_def cuts_no_rule defuzz_no_rule)

lemma output_after_clear_winner:
  "sim_output (snd (advise routing0 (route_of 20 80 0) (route_of 120 30 2) (PyInt 1)))
     ''delta_score'' = Some (17975 / 331)"
  by (simp add: advise_snd_output
      compute_delta_inputs_eq [OF has_measurements_route_of has_measurements_route_of]
      clip_def cuts_A defuzz_A)

text \<open>
  C2.  The claim is that \<open>advise\<close> answers "Ambiguous (No matching rules)" with score 50
  on every input on which no rule fires.  It does on the simulation object as line 130
  creates it.  But \<open>routing\<close> is shared by all calls and \<open>compute\<close> leaves \<open>routing.output\<close>
  as it was when no rule fires, so the test of line 173 finds the "delta_score" of an
  earlier call: after the call for A = (20, 80, 0), B = (120, 30, 2), peak flag 1, the
  call on the no-rule input above answers "Both routes comparable" with the earlier
  call's score.
\<close>

theorem advise_no_rule_after_earlier_call:
  "fst (advise routing0 (route_of 40 56 0) (route_of 20 50 1) (PyInt 0)) =
     Inr \<lparr>score = 50, recommendation = AmbiguousNoRules, raw = (20, 6, 1, 0)\<rparr> \<and>
   fst (advise routing0 (route_of 20 80 0) (route_of 120 30 2) (PyInt 1)) =
     Inr \<lparr>score = 5431 / 100, recommendation = BothComparable, raw = (- 100, 50, 2, 1)\<rparr> \<and>
   fst (advise (snd (advise routing0 (route_of 20 80 0) (route_of 120 30 2) (PyInt 1)))
         (route_of 40 56 0) (route_of 20 50 1) (PyInt 0)) =
     Inr \<lparr>score = 5431 / 100, recommendation = BothComparable, raw = (20, 6, 1, 0)\<rparr>"
proof -
  have "fst (advise routing0 (route_of 40 56 0) (route_of 20 50 1) (PyInt 0)) =
     Inr \<lparr>score = 50, recommendation = AmbiguousNoRules, raw = (20, 6, 1, 0)\<rparr>"
    by (rule advise_no_rule_fresh) (simp add: routing0_def)
  moreover have "fst (advise routing0 (route_of 20 80 0) (route_of 120 30 2) (PyInt 1)) =
     Inr \<lparr>score = 5431 / 100, recommendation = BothComparable, raw = (- 100, 50, 2, 1)\<rparr>"
    by (simp add: advise_fst
        compute_delta_inputs_eq [OF has_measurements_route_of has_measurements_route_of]
        clip_def cuts_A defuzz_A py_round_A interpret_score_def)
  moreover have "fst (advise (snd (advise routing0 (route_of 20 80 0) (route_of 120 30 2) (PyInt 1)))
         (route_of 40 56 0) (route_of 20 50 1) (PyInt 0)) =
     Inr \<lparr>score = 5431 / 100, recommendation = BothComparable, raw = (20, 6, 1, 0)\<rparr>"
    by (simp add: advise_fst [of "snd (advise routing0 (route_of 20 80 0) (route_of 120 30 2) (PyInt 1))"]
        output_after_clear_winner
        compute_delta_inputs_eq [OF has_measurements_route_of has_measurements_route_of]
        clip_def cuts_no_rule defuzz_no_rule py_round_A interpret_score_def)
  ultimately show ?thesis by simp
qed

subsection \<open>The shared simulation object\<close>


text \<open>\<open>advise_module\<close> on the rule list of the module is \<open>advise\<close>.\<close>

lemma advise_module_rules:
  "advise_module \<lparr>mod_rules = rules, mod_routing = routing\<rparr> A B p =
     (fst (advise routing A B p),
      \<lparr>mod_rules = rules, mod_routing = snd (advise routing A B p)\<rparr>)"
  by (simp add: advise_module_def advise_def split: prod.splits)




subsection \<open>Delta inputs and clipping\<close>

text \<open>
  C4.  For route dictionaries that hold their measurements, \<open>compute_delta_inputs\<close> returns
  density(A) - density(B), speed(A) - speed(B), incident(B) - incident(A) and the peak
  flag; \<open>advise\<close> runs the engine on the simulation object whose four inputs are these
  values clipped to [-200,200], [-120,120] and [-10,10] and the peak flag reduced to 0 or
  1, it reports the same four values as "raw", and a peak flag that is the integer 0 or 1
  is passed on unchanged.  Clipping replaces a delta below its universe by the lower
  bound and one above it by the upper bound, and leaves a delta inside its universe as
  it is.
\<close>

theorem delta_inputs_clamped:
  assumes "has_measurements A ad asp ai" and "has_measurements B bd bsp bi"
  shows "let D = clip (ad - bd) (-200) 200; S = clip (asp - bsp) (-120) 120;
             I = clip (bi - ai) (-10) 10; pv = (if truthy p then 1 else 0) in
         compute_delta_inputs A B p = Inr (ad - bd, asp - bsp, bi - ai, p) \<and>
         (\<exists>r. fst (advise_on engine routing A B p) = Inr r \<and> raw r = (D, S, I, pv)) \<and>
         snd (advise_on engine routing A B p) =
           (case engine (set_inputs routing D S I pv) of
              Inl e \<Rightarrow> set_inputs routing D S I pv | Inr routing2 \<Rightarrow> routing2) \<and>
         sim_input (set_inputs routing D S I pv) ''delta_density'' = Some D \<and>
         sim_input (set_inputs routing D S I pv) ''delta_speed'' = Some S \<and>
         sim_input (set_inputs routing D S I pv) ''delta_incident'' = Some I \<and>
         sim_input (set_inputs routing D S I pv) ''delta_time_peak'' = Some (of_int pv) \<and>
         - 200 \<le> D \<and> D \<le> 200 \<and> - 120 \<le> S \<and> S \<le> 120 \<and> - 10 \<le> I \<and> I \<le> 10 \<and>
         (pv = 0 \<or> pv = 1) \<and> (p = PyInt pv) = (p = PyInt 0 \<or> p = PyInt 1) \<and>
         D = (if ad - bd < - 200 then - 200 else if 200 < ad - bd then 200 else ad - bd) \<and>
         S = (if asp - bsp < - 120 then - 120 else if 120 < asp - bsp then 120
              else asp - bsp) \<and>
         I = (if bi - ai < - 10 then - 10 else if 10 < bi - ai then 10 else bi - ai)"
proof -
  have "\<exists>r. fst (advise_on engine routing A B p) = Inr r \<and>
          raw r = (clip (ad - bd) (-200) 200, clip (asp - bsp) (-120) 120,
                   clip (bi - ai) (-10) 10, if truthy p then 1 else 0)"
    unfolding advise_on_eq [OF assms] by (auto split: sum.splits option.splits)
  moreover have "snd (advise_on engine routing A B p) =
      (case engine (set_inputs routing (clip (ad - bd) (-200) 200)
              (clip (asp - bsp) (-120) 120) (clip (bi - ai) (-10) 10)
              (if truthy p then 1 else 0)) of
         Inl e \<Rightarrow> set_inputs routing (clip (ad - bd) (-200) 200)
              (clip (asp - bsp) (-120) 120) (clip (bi - ai) (-10) 10)
              (if truthy p then 1 else 0)
       | Inr routing2 \<Rightarrow> routing2)"
    unfolding advise_on_eq [OF assms] by (auto split: sum.splits option.splits)
  moreover have "(p = PyInt (if truthy p then 1 else 0)) = (p = PyInt 0 \<or> p = PyInt 1)"
    by (cases p) auto
  moreover have "clip (ad - bd) (-200) 200 =
      (if ad - bd < - 200 then - 200 else if 200 < ad - bd then 200 else ad - bd)"
    and "clip (asp - bsp) (-120) 120 =
      (if asp - bsp < - 120 then - 120 else if 120 < asp - bsp then 120 else asp - bsp)"
    and "clip (bi - ai) (-10) 10 =
      (if bi - ai < - 10 then - 10 else if 10 < bi - ai then 10 else bi - ai)"
    by (simp_all add: clip_def)
  ultimately show ?thesis
    unfolding Let_def
    using compute_delta_inputs_eq [OF assms, of p]
      clip_bounds [of "-200" 200 "ad - bd"] clip_bounds [of "-120" 120 "asp - bsp"]
      clip_bounds [of "-10" 10 "bi - ai"]
    by (simp add: set_inputs_input)
qed

theorem delta_inputs_clamped_witness:
  "has_measurements (route_of 300 10 0) 300 10 0 \<and> has_measurements (route_of 20 150 30) 20 150 30 \<and>
   has_measurements (route_of 80 50 1) 80 50 1 \<and> has_measurements (route_of 82 48 3) 82 48 3 \<and>
   compute_delta_inputs (route_of 300 10 0) (route_of 20 150 30) (PyInt 1) =
     Inr (280, - 140, 30, PyInt 1) \<and>
   (\<exists>r. fst (advise_on (compute rules) routing0 (route_of 300 10 0) (route_of 20 150 30) (PyInt 1))
           = Inr r \<and> raw r = (200, - 120, 10, 1)) \<and>
   sim_input (set_inputs routing0 200 (- 120) 10 1) ''delta_density'' = Some 200 \<and>
   sim_input (set_inputs routing0 200 (- 120) 10 1) ''delta_speed'' = Some (- 120) \<and>
   sim_input (set_inputs routing0 200 (- 120) 10 1) ''delta_incident'' = Some 10 \<and>
   sim_input (set_inputs routing0 200 (- 120) 10 1) ''delta_time_peak'' = Some 1 \<and>
   clip 280 (- 200) 200 = 200 \<and> clip (- 140) (- 120) 120 = - 120 \<and> clip 30 (- 10) 10 = 10 \<and>
   compute_delta_inputs (route_of 80 50 1) (route_of 82 48 3) (PyInt 0) =
     Inr (- 2, 2, 2, PyInt 0) \<and>
   (\<exists>r. fst (advise_on (compute rules) routing0 (route_of 80 50 1) (route_of 82 48 3) (PyInt 0))
           = Inr r \<and> raw r = (- 2, 2, 2, 0)) \<and>
   clip (- 2) (- 200) 200 = - 2 \<and> clip 2 (- 120) 120 = 2 \<and> clip 2 (- 10) 10 = 2"
proof -
  have a: "clip 280 (- 200) 200 = 200 \<and> clip (- 140) (- 120) 120 = - 120 \<and>
      clip 30 (- 10) 10 = 10"
    using delta_inputs_clamped [OF has_measurements_route_of [of 300 10 0]
        has_measurements_route_of [of 20 150 30],
        where engine = "compute rules" and routing = routing0 and p = "PyInt 1"]
    unfolding Let_def by (simp (no_asm_use)) simp
  have b: "clip (- 2) (- 200) 200 = - 2 \<and> clip 2 (- 120) 120 = 2 \<and> clip 2 (- 10) 10 = 2"
    using delta_inputs_clamped [OF has_measurements_route_of [of 80 50 1]
        has_measurements_route_of [of 82 48 3],
        where engine = "compute rules" and routing = routing0 and p = "PyInt 0"]
    unfolding Let_def by (simp (no_asm_use)) simp
  show ?thesis
    using delta_inputs_clamped [OF has_measurements_route_of [of 300 10 0]
        has_measurements_route_of [of 20 150 30],
        where engine = "compute rules" and routing = routing0 and p = "PyInt 1"]
      delta_inputs_clamped [OF has_measurements_route_of [of 80 50 1]
        has_measurements_route_of [of 82 48 3],
        where engine = "compute rules" and routing = routing0 and p = "PyInt 0"]
    unfolding Let_def
    by (simp add: has_measurements_route_of a b)
qed

subsection \<open>The peak flag\<close>



subsection \<open>Membership functions\<close>

lemma trimf_ok:
  assumes "a \<le> b" and "b \<le> c"
  shows "\<exists>y. trimf x (a, b, c) = Inr y \<and> 0 \<le> y \<and> y \<le> 1"
  using assms by (auto simp: trimf_def fdiv_def)

lemma trimf_peak: "a \<le> b \<Longrightarrow> b \<le> c \<Longrightarrow> trimf b (a, b, c) = Inr 1"
  by (simp add: trimf_def)

lemma trimf_outside: "a \<le> b \<Longrightarrow> b \<le> c \<Longrightarrow> x < a \<or> c < x \<Longrightarrow> trimf x (a, b, c) = Inr 0"
  by (auto simp: trimf_def)

lemma trimf_singleton: "trimf x (a, a, a) = Inr (if x = a then 1 else 0)"
  by (simp add: trimf_def)

lemma trapmf_ok:
  assumes "a \<le> b" and "b \<le> c" and "c \<le> d"
  shows "\<exists>y. trapmf x (a, b, c, d) = Inr y \<and> 0 \<le> y \<and> y \<le> 1"
proof -
  obtain y1 where y1: "trimf x (a, b, b) = Inr y1" "0 \<le> y1" "y1 \<le> 1"
    using trimf_ok [of a b b x] assms by auto
  obtain y2 where y2: "trimf x (c, c, d) = Inr y2" "0 \<le> y2" "y2 \<le> 1"
    using trimf_ok [of c c d x] assms by auto
  show ?thesis
    using assms y1 y2 by (auto simp: trapmf_def bind_fault_def)
qed

lemma trapmf_plateau:
  "a \<le> b \<Longrightarrow> b \<le> c \<Longrightarrow> c \<le> d \<Longrightarrow> b \<le> x \<Longrightarrow> x \<le> c \<Longrightarrow> trapmf x (a, b, c, d) = Inr 1"
  by (auto simp: trapmf_def bind_fault_def trimf_def)

lemma trapmf_outside:
  assumes "a \<le> b" and "b \<le> c" and "c \<le> d" and "x < a \<or> d < x"
  shows "trapmf x (a, b, c, d) = Inr 0"
proof -
  obtain y1 where y1: "trimf x (a, b, b) = Inr y1"
    using trimf_ok [of a b b x] assms by auto
  obtain y2 where y2: "trimf x (c, c, d) = Inr y2"
    using trimf_ok [of c c d x] assms by auto
  show ?thesis
    using assms y1 y2 by (auto simp: trapmf_def bind_fault_def)
qed

text \<open>
  C7.  For ordered parameters and every point \<open>x\<close>, a triangular or trapezoidal membership
  function returns a degree (no failed assertion and no division by zero, also when
  \<open>a = b\<close> or \<open>c = d\<close>), the degree lies in [0,1], it is exactly 1 on the plateau (at \<open>b\<close>
  for a triangle, on \<open>[b,c]\<close> for a trapezoid) and exactly 0 outside the support (\<open>x < a\<close>
  or beyond the last parameter); the singleton \<open>a = b = c\<close> is 1 at \<open>a\<close> and 0 elsewhere.
\<close>

theorem membership_shape_properties:
  "(a \<le> b \<and> b \<le> c \<longrightarrow>
      (\<exists>y. trimf x (a, b, c) = Inr y \<and> 0 \<le> y \<and> y \<le> 1) \<and>
      trimf b (a, b, c) = Inr 1 \<and>
      (x < a \<or> c < x \<longrightarrow> trimf x (a, b, c) = Inr 0)) \<and>
   (a \<le> b \<and> b \<le> c \<and> c \<le> d \<longrightarrow>
      (\<exists>y. trapmf x (a, b, c, d) = Inr y \<and> 0 \<le> y \<and> y \<le> 1) \<and>
      (b \<le> x \<and> x \<le> c \<longrightarrow> trapmf x (a, b, c, d) = Inr 1) \<and>
      (x < a \<or> d < x \<longrightarrow> trapmf x (a, b, c, d) = Inr 0)) \<and>
   trimf x (a, a, a) = Inr (if x = a then 1 else 0)"
  using trimf_ok [of a b c x] trimf_peak [of a b c] trimf_outside [of a b c x]
    trapmf_ok [of a b c d x] trapmf_plateau [of a b c d x] trapmf_outside [of a b c d x]
    trimf_singleton [of x a]
  by blast

theorem membership_shape_properties_witness:
  "(1::real) \<le> 1 \<and> (50::real) \<le> 80 \<and> (80::real) \<le> 200 \<and> (200::real) \<le> 200 \<and>
   (\<exists>y. trimf 1 (1, 1, 1) = Inr y \<and> 0 \<le> y \<and> y \<le> 1) \<and>
   trimf 1 (1, 1, 1) = Inr 1 \<and>
   trimf 0 (1, 1, 1) = Inr 0 \<and>
   (\<exists>y. trapmf 200 (50, 80, 200, 200) = Inr y \<and> 0 \<le> y \<and> y \<le> 1) \<and>
   trapmf 200 (50, 80, 200, 200) = Inr 1 \<and>
   trapmf 201 (50, 80, 200, 200) = Inr 0"
  using membership_shape_properties [of 1 1 1 1 1] membership_shape_properties [of 1 1 1 0 1]
    membership_shape_properties [of 50 80 200 200 200]
    membership_shape_properties [of 50 80 200 201 200]
  by simp

text \<open>Every shape of lines 58-85 is valid: building the arrays raises nothing.\<close>

lemma trimf_Inr: "a \<le> b \<Longrightarrow> b \<le> c \<Longrightarrow> \<exists>y. trimf x (a, b, c) = Inr y"
  using trimf_ok [of a b c x] by blast

lemma trapmf_Inr: "a \<le> b \<Longrightarrow> b \<le> c \<Longrightarrow> c \<le> d \<Longrightarrow> \<exists>y. trapmf x (a, b, c, d) = Inr y"
  using trapmf_ok [of a b c d x] by blast

lemma module_shapes_load:
  "\<exists>y. membership (delta_density l) x = Inr y"
  "\<exists>y. membership (delta_speed l) x = Inr y"
  "\<exists>y. membership (delta_incident l) x = Inr y"
  "\<exists>y. membership (delta_time_peak pl) x = Inr y"
  "\<exists>y. membership (delta_score sl) x = Inr y"
proof -
  show "\<exists>y. membership (delta_density l) x = Inr y"
    by (cases l) (simp_all add: trimf_Inr trapmf_Inr)
  show "\<exists>y. membership (delta_speed l) x = Inr y"
    by (cases l) (simp_all add: trimf_Inr trapmf_Inr)
  show "\<exists>y. membership (delta_incident l) x = Inr y"
    by (cases l) (simp_all add: trimf_Inr trapmf_Inr)
  show "\<exists>y. membership (delta_time_peak pl) x = Inr y"
    by (cases pl) (simp_all add: trimf_Inr)
  show "\<exists>y. membership (delta_score sl) x = Inr y"
    by (cases sl) (simp_all add: trimf_Inr trapmf_Inr)
qed

subsection \<open>The order of the rules\<close>

lemma compute_rule_commute:
  "compute_rule inp r1 (compute_rule inp r2 cuts) = compute_rule inp r2 (compute_rule inp r1 cuts)"
  by (cases r1; cases r2) (auto simp: fun_upd_twist max.commute max.left_commute split: option.splits)

lemma accumulate_mset: "mset rs = mset rs' \<Longrightarrow> accumulate rs inp = accumulate rs' inp"
  unfolding accumulate_def
  by (rule fun_cong [OF fold_multiset_equiv]) (auto simp: fun_eq_iff compute_rule_commute)

text \<open>
  C8.  The engine gives the same outcome (the same crisp score, or the same fault) for
  every simulation state when the rule list is permuted, and so does \<open>advise\<close>: each rule
  fires on its own and the cuts of a consequent term are combined by maximum.
\<close>

theorem score_order_independent:
  assumes "mset rs = mset rs'"
  shows "compute rs sim = compute rs' sim \<and>
         advise_on (compute rs) routing A B p = advise_on (compute rs') routing A B p"
proof -
  have acc: "accumulate rs = accumulate rs'"
    by (rule ext) (rule accumulate_mset [OF assms])
  have "compute rs = compute rs'"
    unfolding compute_def acc by (rule refl)
  then show ?thesis by simp
qed

theorem score_order_independent_witness:
  "mset (rev rules) = mset rules \<and>
   compute (rev rules) (set_inputs routing0 (- 100) 50 2 1) =
     compute rules (set_inputs routing0 (- 100) 50 2 1) \<and>
   advise_on (compute (rev rules)) routing0 (route_of 20 80 0) (route_of 120 30 2) (PyInt 1) =
     advise_on (compute rules) routing0 (route_of 20 80 0) (route_of 120 30 2) (PyInt 1)"
  using score_order_independent [of "rev rules" rules "set_inputs routing0 (- 100) 50 2 1"
      routing0 "route_of 20 80 0" "route_of 120 30 2" "PyInt 1"]
  by simp

subsection \<open>The range of the score\<close>

text \<open>An output in \<open>routing.output\<close> was stored by a call of \<open>advise\<close>, so it lies in [0,100].\<close>

lemma reachable_output_in_range:
  "reachable routing \<Longrightarrow> sim_output routing ''delta_score'' = Some s \<Longrightarrow> 0 \<le> s \<and> s \<le> 100"
proof (induction arbitrary: s rule: reachable.induct)
  case start
  then show ?case by (simp add: routing0_def)
next
  case (call routing A B p)
  show ?case
  proof (cases "compute_delta_inputs A B p")
    case (Inl e)
    with call show ?thesis by (simp add: advise_snd_output)
  next
    case (Inr t)
    obtain d0 s0 i0 pk where t: "t = (d0, s0, i0, pk)" by (cases t) auto
    show ?thesis
    proof (cases "defuzz (output_mf (accumulate rules
                   \<lparr>in_density = clip d0 (-200) 200, in_speed = clip s0 (-120) 120,
                      in_incident = clip i0 (-10) 10,
                      in_time_peak = (if truthy pk then 1 else 0)\<rparr>))")
      case None
      with call Inr t show ?thesis by (simp add: advise_snd_output)
    next
      case (Some v)
      have "0 \<le> v \<and> v \<le> 100"
        by (rule defuzz_bounds [OF _ Some]) (rule output_mf_nonneg)
      with call.prems Inr t Some show ?thesis by (simp add: advise_snd_output)
    qed
  qed
qed

text \<open>
  C6.  In every state of the simulation object that calls of \<open>advise\<close> can produce from the
  object of line 130, for route dictionaries that hold their measurements and every peak
  flag, \<open>advise\<close> returns a result whose score lies in [0,100]: the centroid of a
  non-negative aggregate over the universe 0..100 lies in [0,100], so does a crisp value
  an earlier call stored, rounding to two decimals keeps it there, and the two sentinels
  have score 50.
\<close>

theorem advise_score_in_range:
  assumes "reachable routing"
    and "has_measurements A ad asp ai" and "has_measurements B bd bsp bi"
  shows "\<exists>r. fst (advise routing A B p) = Inr r \<and> 0 \<le> score r \<and> score r \<le> 100"
proof (cases "defuzz (output_mf (accumulate rules
                   \<lparr>in_density = clip (ad - bd) (-200) 200, in_speed = clip (asp - bsp) (-120) 120,
                      in_incident = clip (bi - ai) (-10) 10,
                      in_time_peak = (if truthy p then 1 else 0)\<rparr>))")
  case (Some v)
  have "0 \<le> v \<and> v \<le> 100"
    by (rule defuzz_bounds [OF _ Some]) (rule output_mf_nonneg)
  then show ?thesis
    using Some py_round_bounds [of v]
    by (simp add: advise_fst compute_delta_inputs_eq [OF assms(2,3)])
next
  case None
  show ?thesis
  proof (cases "sim_output routing ''delta_score''")
    case no_output: None
    with None show ?thesis
      by (simp add: advise_fst compute_delta_inputs_eq [OF assms(2,3)])
  next
    case (Some old)
    have "0 \<le> old \<and> old \<le> 100"
      by (rule reachable_output_in_range [OF assms(1) Some])
    then show ?thesis
      using None Some py_round_bounds [of old]
      by (simp add: advise_fst compute_delta_inputs_eq [OF assms(2,3)])
  qed
qed

theorem advise_score_in_range_witness:
  "reachable routing0 \<and>
   reachable (snd (advise routing0 (route_of 20 80 0) (route_of 120 30 2) (PyInt 1))) \<and>
   has_measurements (route_of 80 50 1) 80 50 1 \<and> has_measurements (route_of 82 48 1) 82 48 1 \<and>
   has_measurements (route_of 40 56 0) 40 56 0 \<and> has_measurements (route_of 20 50 1) 20 50 1 \<and>
   (\<exists>r. fst (advise routing0 (route_of 80 50 1) (route_of 82 48 1) (PyInt 0)) = Inr r \<and>
        0 \<le> score r \<and> score r \<le> 100) \<and>
   (\<exists>r. fst (advise (snd (advise routing0 (route_of 20 80 0) (route_of 120 30 2) (PyInt 1)))
             (route_of 40 56 0) (route_of 20 50 1) (PyInt 0)) = Inr r \<and>
        0 \<le> score r \<and> score r \<le> 100)"
  using advise_score_in_range [OF reachable.start has_measurements_route_of [of 80 50 1]
      has_measurements_route_of [of 82 48 1], of "PyInt 0"]
    advise_score_in_range [OF reachable.call [OF reachable.start]
      has_measurements_route_of [of 40 56 0] has_measurements_route_of [of 20 50 1],
      of "route_of 20 80 0" "route_of 120 30 2" "PyInt 1" "PyInt 0"]
    reachable.start
    reachable.call [OF reachable.start, of "route_of 20 80 0" "route_of 120 30 2" "PyInt 1"]
  by (simp add: has_measurements_route_of)

end
